theory Spec2Isabelle
  imports Main
begin

section \<open>The upload component of project2frontend\<close>

text \<open>
  A shallow embedding of the \<^verbatim>\<open>FileUpload\<close> component
  (\<^verbatim>\<open>src/project2/src/types/index.ts\<close>, second document of the file): its React
  state, its handlers and the values the handlers receive from \<^verbatim>\<open>fetch\<close>.

  Every handler is a function from the values it reads (the state of the render it closes
  over and the replies of the network) to the list of effects it performs, in program
  order: the calls of the state setters, the calls of \<^verbatim>\<open>fetch\<close> and the DOM calls of
  the download. The state after a handler is the state before it with the setter calls
  applied in that order. A handler is modelled as running without another handler
  interleaved at its \<^verbatim>\<open>await\<close> points.
\<close>

subsection \<open>Data\<close>

text \<open>A cell of a preview row (\<^verbatim>\<open>Record<string, any>\<close>); numbers are modelled as integers.\<close>

datatype scalar = SNull | SNum int | SStr string

record stats_t =
  total_records :: int
  filename :: string
  columns :: "string list"
  preview :: "(string \<times> scalar) list list"

text \<open>
  A value of a parsed JSON body, as the untyped \<^verbatim>\<open>data\<close> of line 110 has its members.
  A number is seen by the handler only through its truthiness and its text: it is zero, or
  it is not zero and is given by the text that its conversion to a string yields
  (\<^verbatim>\<open>5\<close> as \<open>''5''\<close>, \<^verbatim>\<open>1.5\<close> as \<open>''1.5''\<close>).
\<close>

datatype number = Zero | NonZero string

datatype jsvalue =
    VNull
  | VBool bool
  | VNum number
  | VStr string
  | VArr "jsvalue list"
  | VObj "(string \<times> jsvalue) list"

text \<open>
  \<^verbatim>\<open>ProcessingResult\<close>. The value held at run time is the parsed JSON object of the
  upload reply, cast without a check (\<^verbatim>\<open>data as ProcessingResult\<close>), so every member may
  be missing: \<open>None\<close> is JavaScript's \<^verbatim>\<open>undefined\<close>. The member \<^verbatim>\<open>error\<close> is called
  \<open>payload_error\<close> here, the name \<open>error\<close> being the component's state variable. The
  members \<^verbatim>\<open>error\<close> and \<^verbatim>\<open>message\<close> are read before the cast, on the reply that is
  not \<^verbatim>\<open>ok\<close> (line 115), where they may hold any JSON value.
\<close>

record ProcessingResult =
  success :: "bool option"
  message :: "jsvalue option"
  stats :: "stats_t option"
  download_url :: "string option"
  payload_error :: "jsvalue option"

record HealthCheckResponse =
  status :: "string option"
  health_message :: "string option"
  backend :: "string option"
  version :: "string option"

text \<open>The browser's \<^verbatim>\<open>File\<close>: the two properties the component reads.\<close>

record File =
  file_name :: string
  file_size :: nat

text \<open>
  What a \<^verbatim>\<open>catch\<close> clause receives: an \<^verbatim>\<open>Error\<close> object with its message, or any
  other thrown value (\<^verbatim>\<open>err instanceof Error\<close> tells them apart).
\<close>

datatype thrown = ErrorObj string | OtherValue

datatype 'a promise = Resolved 'a | Rejected thrown

text \<open>A parsed JSON body: \<^verbatim>\<open>null\<close> or an object.\<close>

datatype 'a json_value = JNull | JObject 'a

text \<open>
  A \<^verbatim>\<open>Response\<close>: its status and what reading its body (\<^verbatim>\<open>response.json()\<close>,
  \<^verbatim>\<open>response.blob()\<close>) settles to. \<^verbatim>\<open>response.ok\<close> is the Fetch standard's: the
  status is in the range 200 to 299.
\<close>

record 'b response =
  status_code :: nat
  body :: "'b promise"

definition ok :: "'b response \<Rightarrow> bool" where
  "ok r = (200 \<le> status_code r \<and> status_code r \<le> 299)"

text \<open>
  The five state variables of the component (\<^verbatim>\<open>useState\<close>, lines 27 to 31). The
  variable \<^verbatim>\<open>file\<close> is called \<open>selectedFile\<close>, \<open>file\<close> being a keyword of Isabelle.
\<close>

record state =
  selectedFile :: "File option"
  uploading :: bool
  result :: "ProcessingResult option"
  error :: "string option"
  dragActive :: bool

definition initial_state :: state where
  "initial_state =
     \<lparr>selectedFile = None, uploading = False, result = None, error = None, dragActive = False\<rparr>"

datatype event =
    FetchGet string
  | FetchPost string File
  | SetFile "File option"
  | SetUploading bool
  | SetResult "ProcessingResult option"
  | SetError "string option"
  | SetDragActive bool
  | CreateObjectURL string
  | AnchorClick string
  | RevokeObjectURL

fun setState :: "event \<Rightarrow> state \<Rightarrow> state" where
  "setState (SetFile f) s = s\<lparr>selectedFile := f\<rparr>"
| "setState (SetUploading b) s = s\<lparr>uploading := b\<rparr>"
| "setState (SetResult r) s = s\<lparr>result := r\<rparr>"
| "setState (SetError e) s = s\<lparr>error := e\<rparr>"
| "setState (SetDragActive b) s = s\<lparr>dragActive := b\<rparr>"
| "setState _ s = s"

fun exec :: "event list \<Rightarrow> state \<Rightarrow> state" where
  "exec [] s = s"
| "exec (e # es) s = exec es (setState e s)"

text \<open>The states the component passes through while the effects run, the first one included.\<close>

fun states_along :: "event list \<Rightarrow> state \<Rightarrow> state list" where
  "states_along [] s = [s]"
| "states_along (e # es) s = s # states_along es (setState e s)"

subsection \<open>Strings\<close>

definition API_BASE_URL :: string where
  "API_BASE_URL = ''https://project2backenddeploy-production.up.railway.app''"

text \<open>\<^verbatim>\<open>String.prototype.endsWith\<close>.\<close>

definition endsWith :: "string \<Rightarrow> string \<Rightarrow> bool" where
  "endsWith s suf =
     (length suf \<le> length s \<and> drop (length s - length suf) s = suf)"

text \<open>The decimal digits of a number, as a template literal prints \<^verbatim>\<open>response.status\<close>.\<close>

definition digit :: "nat \<Rightarrow> char" where
  "digit d = ''0123456789'' ! (d mod 10)"

fun decimal :: "nat \<Rightarrow> string" where
  "decimal n = (if n < 10 then [digit n] else decimal (n div 10) @ [digit (n mod 10)])"

declare decimal.simps [simp del]

text \<open>
  JavaScript's truthiness of a member that is a string or missing: \<^verbatim>\<open>undefined\<close> and
  the empty string are falsy.
\<close>

fun truthy :: "string option \<Rightarrow> bool" where
  "truthy None = False"
| "truthy (Some v) = (v \<noteq> [])"

text \<open>JavaScript's truthiness of a JSON value, and of a member that may be missing.\<close>

fun truthy_value :: "jsvalue \<Rightarrow> bool" where
  "truthy_value VNull = False"
| "truthy_value (VBool b) = b"
| "truthy_value (VNum Zero) = False"
| "truthy_value (VNum (NonZero t)) = True"
| "truthy_value (VStr v) = (v \<noteq> [])"
| "truthy_value (VArr vs) = True"
| "truthy_value (VObj kvs) = True"


text \<open>\<^verbatim>\<open>Array.prototype.join\<close> with its default separator, on the texts of the elements.\<close>

fun join :: "string list \<Rightarrow> string" where
  "join [] = []"
| "join [t] = t"
| "join (t # u # us) = t @ '','' @ join (u # us)"

text \<open>
  The conversion of a JSON value to a string (\<^verbatim>\<open>ToString\<close>, which \<^verbatim>\<open>new Error(...)\<close>
  applies to its argument); \<open>None\<close> is the \<^verbatim>\<open>TypeError\<close> it throws. An array is the
  join of its elements, \<^verbatim>\<open>null\<close> elements as the empty text. An object parsed from JSON
  is \<^verbatim>\<open>[object Object]\<close>, unless it has a member \<^verbatim>\<open>toString\<close> of its own: that member
  is not a function and hides the inherited method, no primitive is obtained, and the
  conversion throws.
\<close>

fun toString :: "jsvalue \<Rightarrow> string option"
  and element_texts :: "jsvalue list \<Rightarrow> string list option" where
  "toString VNull = Some ''null''"
| "toString (VBool b) = Some (if b then ''true'' else ''false'')"
| "toString (VNum Zero) = Some ''0''"
| "toString (VNum (NonZero t)) = Some t"
| "toString (VStr v) = Some v"
| "toString (VArr vs) = map_option join (element_texts vs)"
| "toString (VObj kvs) =
     (if ''toString'' \<in> set (map fst kvs) then None else Some ''[object Object]'')"
| "element_texts [] = Some []"
| "element_texts (v # vs) =
     (case (if v = VNull then Some [] else toString v) of
        None \<Rightarrow> None
      | Some t \<Rightarrow> map_option ((#) t) (element_texts vs))"

subsection \<open>The handlers\<close>

text \<open>
  \<^verbatim>\<open>testBackendConnection\<close> (lines 34 to 44): the request it sends and the boolean it
  returns. The status of the reply is not read; a rejected \<^verbatim>\<open>fetch\<close>, a body that is
  not JSON and a \<^verbatim>\<open>null\<close> body (reading \<^verbatim>\<open>data.status\<close> throws) all end in the
  \<^verbatim>\<open>catch\<close> clause.
\<close>

definition health_url :: string where
  "health_url = API_BASE_URL @ ''/api/health''"

definition upload_url :: string where
  "upload_url = API_BASE_URL @ ''/api/upload''"

definition testBackendConnection ::
  "HealthCheckResponse json_value response promise \<Rightarrow> event list \<times> bool" where
  "testBackendConnection reply =
     ([FetchGet health_url],
      (case reply of
         Rejected t \<Rightarrow> False
       | Resolved r \<Rightarrow>
           (case body r of
              Rejected t \<Rightarrow> False
            | Resolved JNull \<Rightarrow> False
            | Resolved (JObject d) \<Rightarrow> status d = Some ''healthy'')))"

text \<open>\<^verbatim>\<open>handleFileSelect\<close> (lines 67 to 75).\<close>

definition handleFileSelect :: "File \<Rightarrow> event list" where
  "handleFileSelect candidate =
     (if endsWith (file_name candidate) ''.xlsx''
      then [SetFile (Some candidate), SetError None, SetResult None]
      else [SetError (Some ''Please select a valid .xlsx file'')])"

text \<open>\<^verbatim>\<open>handleDrag\<close> (lines 46 to 54), on the type of the drag event.\<close>

definition handleDrag :: "string \<Rightarrow> event list" where
  "handleDrag ty =
     (if ty = ''dragenter'' \<or> ty = ''dragover'' then [SetDragActive True]
      else if ty = ''dragleave'' then [SetDragActive False]
      else [])"

text \<open>
  \<^verbatim>\<open>handleDrop\<close> (lines 56 to 65) and \<^verbatim>\<open>handleFileInputChange\<close> (lines 77 to 81), on
  the first file of the list, if there is one.
\<close>

definition handleDrop :: "File option \<Rightarrow> event list" where
  "handleDrop first =
     SetDragActive False # (case first of None \<Rightarrow> [] | Some f \<Rightarrow> handleFileSelect f)"

definition handleFileInputChange :: "File option \<Rightarrow> event list" where
  "handleFileInputChange first = (case first of None \<Rightarrow> [] | Some f \<Rightarrow> handleFileSelect f)"

text \<open>
  What \<^verbatim>\<open>handleUpload\<close> receives from outside: the reply to the health probe, the reply
  to the upload, and the messages of the two \<^verbatim>\<open>TypeError\<close>s the engine can raise: when
  a member of \<^verbatim>\<open>null\<close> is read, and when a value cannot be converted to a string.
\<close>

record upload_env =
  health_reply :: "HealthCheckResponse json_value response promise"
  upload_reply :: "ProcessingResult json_value response promise"
  type_error_message :: string
  convert_error_message :: string

text \<open>
  Line 115: \<^verbatim>\<open>data.error || data.message || `Upload failed with status ...`\<close>. The
  operator \<^verbatim>\<open>||\<close> yields its left operand when that is truthy, whatever its type, and its
  right operand otherwise.
\<close>

definition status_message :: "nat \<Rightarrow> string" where
  "status_message code = ''Upload failed with status '' @ decimal code"

definition or_else :: "jsvalue option \<Rightarrow> jsvalue \<Rightarrow> jsvalue" where
  "or_else a b = (case a of None \<Rightarrow> b | Some v \<Rightarrow> (if truthy_value v then v else b))"

definition errorMessage :: "ProcessingResult \<Rightarrow> nat \<Rightarrow> jsvalue" where
  "errorMessage data code =
     or_else (payload_error data) (or_else (message data) (VStr (status_message code)))"

text \<open>
  Line 116: \<^verbatim>\<open>throw new Error(errorMessage)\<close>. The constructor converts its argument to
  a string; when the conversion throws, that \<^verbatim>\<open>TypeError\<close> is what the \<^verbatim>\<open>catch\<close>
  clause receives.
\<close>

definition new_Error :: "upload_env \<Rightarrow> jsvalue \<Rightarrow> thrown" where
  "new_Error env v =
     (case toString v of
        Some t \<Rightarrow> ErrorObj t
      | None \<Rightarrow> ErrorObj (convert_error_message env))"

text \<open>Lines 123 to 125: the download URL is prefixed when it is truthy.\<close>

definition qualify :: "ProcessingResult \<Rightarrow> ProcessingResult" where
  "qualify data =
     (case download_url data of
        Some u \<Rightarrow> (if u \<noteq> [] then data\<lparr>download_url := Some (API_BASE_URL @ u)\<rparr> else data)
      | None \<Rightarrow> data)"

text \<open>
  The body of the \<^verbatim>\<open>try\<close> block after the request is sent (lines 108 to 127): the
  exception it throws, or the result it stores.
\<close>

definition upload_try :: "upload_env \<Rightarrow> thrown + ProcessingResult" where
  "upload_try env =
     (case upload_reply env of
        Rejected t \<Rightarrow> Inl t
      | Resolved r \<Rightarrow>
          (case body r of
             Rejected t \<Rightarrow> Inl t
           | Resolved JNull \<Rightarrow> Inl (ErrorObj (type_error_message env))
           | Resolved (JObject data) \<Rightarrow>
               (if \<not> ok r then Inl (new_Error env (errorMessage data (status_code r)))
                else Inr (qualify data))))"

text \<open>
  The one setter call that follows: \<^verbatim>\<open>setResult\<close> at the end of the \<^verbatim>\<open>try\<close> block
  (line 127), or \<^verbatim>\<open>setError\<close> in the \<^verbatim>\<open>catch\<close> clause (line 130).
\<close>

definition upload_outcome :: "upload_env \<Rightarrow> event" where
  "upload_outcome env =
     (case upload_try env of
        Inr processedResult \<Rightarrow> SetResult (Some processedResult)
      | Inl (ErrorObj m) \<Rightarrow> SetError (Some m)
      | Inl OtherValue \<Rightarrow> SetError (Some ''An error occurred while uploading the file''))"

definition connect_message :: string where
  "connect_message =
     ''Cannot connect to backend server. Make sure Flask is running on '' @ API_BASE_URL"

text \<open>\<^verbatim>\<open>handleUpload\<close> (lines 83 to 134).\<close>

definition handleUpload :: "upload_env \<Rightarrow> state \<Rightarrow> event list" where
  "handleUpload env s =
     (case selectedFile s of
        None \<Rightarrow> [SetError (Some ''Please select a file first'')]
      | Some f \<Rightarrow>
          (let (probe, isBackendHealthy) = testBackendConnection (health_reply env) in
           if \<not> isBackendHealthy then probe @ [SetError (Some connect_message)]
           else probe @ [SetUploading True, SetError None, FetchPost upload_url f,
                         upload_outcome env, SetUploading False]))"

text \<open>
  \<^verbatim>\<open>handleDownload\<close> (lines 136 to 155). The reply carries the blob as a byte string.
  Reading \<^verbatim>\<open>result.stats.filename\<close> throws when \<^verbatim>\<open>stats\<close> is missing, after the
  object URL was created.
\<close>

definition handleDownload :: "string response promise \<Rightarrow> state \<Rightarrow> event list" where
  "handleDownload reply s =
     (case result s of
        None \<Rightarrow> []
      | Some r \<Rightarrow>
          (case download_url r of
             None \<Rightarrow> []
           | Some u \<Rightarrow>
               (if u = [] then []
                else FetchGet u #
                  (case reply of
                     Rejected t \<Rightarrow> [SetError (Some ''Failed to download file'')]
                   | Resolved resp \<Rightarrow>
                       (if \<not> ok resp then [SetError (Some ''Failed to download file'')]
                        else (case body resp of
                                Rejected t \<Rightarrow> [SetError (Some ''Failed to download file'')]
                              | Resolved blob \<Rightarrow>
                                  CreateObjectURL blob #
                                  (case stats r of
                                     None \<Rightarrow> [SetError (Some ''Failed to download file'')]
                                   | Some st \<Rightarrow>
                                       [AnchorClick (filename st), RevokeObjectURL])))))))"

text \<open>\<^verbatim>\<open>handleReset\<close> (lines 157 to 161).\<close>

definition handleReset :: "event list" where
  "handleReset = [SetFile None, SetResult None, SetError None]"

subsection \<open>The operations on the session\<close>

datatype operation =
    SelectFile File
  | RequestUpload upload_env
  | RequestDownload "string response promise"
  | Reset
  | ProbeHealth "HealthCheckResponse json_value response promise"
  | Drag string
  | Drop "File option"
  | Pick "File option"

fun effects :: "operation \<Rightarrow> state \<Rightarrow> event list" where
  "effects (SelectFile c) s = handleFileSelect c"
| "effects (RequestUpload env) s = handleUpload env s"
| "effects (RequestDownload reply) s = handleDownload reply s"
| "effects Reset s = handleReset"
| "effects (ProbeHealth reply) s = fst (testBackendConnection reply)"
| "effects (Drag ty) s = handleDrag ty"
| "effects (Drop first) s = handleDrop first"
| "effects (Pick first) s = handleFileInputChange first"

definition perform :: "operation \<Rightarrow> state \<Rightarrow> state" where
  "perform op s = exec (effects op s) s"

fun run :: "operation list \<Rightarrow> state \<Rightarrow> state" where
  "run [] s = s"
| "run (op # ops) s = run ops (perform op s)"

text \<open>
  The phase of the session, read off what the component renders (lines 257 to 303): with a
  result it shows the results section and the download control; without one it shows the
  upload controls, with the spinner while \<open>uploading\<close>; the error box is shown beside
  either whenever \<open>error\<close> is set.
\<close>

datatype phase = Idle | Uploading | Succeeded | Failed

definition phase :: "state \<Rightarrow> phase" where
  "phase s =
     (if result s \<noteq> None then Succeeded
      else if uploading s then Uploading
      else if error s \<noteq> None then Failed
      else Idle)"

text \<open>The arguments of the calls of \<^verbatim>\<open>setUploading\<close>, in order.\<close>

fun uploading_calls :: "event list \<Rightarrow> bool list" where
  "uploading_calls [] = []"
| "uploading_calls (SetUploading b # es) = b # uploading_calls es"
| "uploading_calls (e # es) = uploading_calls es"

text \<open>
  A request failed: \<^verbatim>\<open>fetch\<close> rejected, or the reply is not \<^verbatim>\<open>ok\<close> (the two
  cases that lines 140 and 141 send to the \<^verbatim>\<open>catch\<close> clause of the download).
\<close>

fun fetch_failed :: "'b response promise \<Rightarrow> bool" where
  "fetch_failed (Rejected t) = True"
| "fetch_failed (Resolved resp) = (\<not> ok resp)"

subsection \<open>Concrete sessions\<close>

definition xlsx_file :: File where
  "xlsx_file = \<lparr>file_name = ''trades.xlsx'', file_size = 2048\<rparr>"

definition csv_file :: File where
  "csv_file = \<lparr>file_name = ''trades.csv'', file_size = 2048\<rparr>"

definition health_reply_with :: "string \<Rightarrow> HealthCheckResponse json_value response promise" where
  "health_reply_with st =
     Resolved \<lparr>status_code = 200,
       body = Resolved (JObject \<lparr>status = Some st, health_message = Some ''up'',
                backend = Some ''flask'', version = Some ''1.0''\<rparr>)\<rparr>"

text \<open>The upload reply of the specification's example.\<close>

definition example_payload :: ProcessingResult where
  "example_payload =
     \<lparr>success = Some True, message = None,
      stats = Some \<lparr>total_records = 5, filename = ''out.csv'', columns = [''A'', ''B''],
                preview = [[(''A'', SNum 1), (''B'', SNum 2)]]\<rparr>,
      download_url = Some ''/files/out.csv'', payload_error = None\<rparr>"

definition empty_payload :: ProcessingResult where
  "empty_payload =
     \<lparr>success = None, message = None, stats = None, download_url = None,
      payload_error = None\<rparr>"

definition env_with ::
  "string \<Rightarrow> ProcessingResult json_value response promise \<Rightarrow> upload_env" where
  "env_with st reply =
     \<lparr>health_reply = health_reply_with st, upload_reply = reply,
      type_error_message = ''Cannot read properties of null'',
      convert_error_message = ''Cannot convert object to primitive value''\<rparr>"

definition json_reply :: "nat \<Rightarrow> ProcessingResult \<Rightarrow> ProcessingResult json_value response promise" where
  "json_reply code data = Resolved \<lparr>status_code = code, body = Resolved (JObject data)\<rparr>"

text \<open>A reply whose body is empty: \<^verbatim>\<open>response.json()\<close> rejects with a \<^verbatim>\<open>SyntaxError\<close>.\<close>

definition empty_body_reply :: "nat \<Rightarrow> ProcessingResult json_value response promise" where
  "empty_body_reply code =
     Resolved \<lparr>status_code = code, body = Rejected (ErrorObj ''Unexpected end of JSON input'')\<rparr>"

definition armed :: state where
  "armed = perform (SelectFile xlsx_file) initial_state"

definition succeeded :: state where
  "succeeded = perform (RequestUpload (env_with ''healthy'' (json_reply 200 example_payload))) armed"

text \<open>A state the component passes through while that upload is in flight.\<close>

definition mid_upload :: state where
  "mid_upload =
     states_along (handleUpload (env_with ''healthy'' (json_reply 200 example_payload)) armed)
       armed ! 4"




text \<open>A file is selected and processed, and the download of the output then fails.\<close>

definition failed_download_run :: "operation list" where
  "failed_download_run =
     [SelectFile xlsx_file,
      RequestUpload (env_with ''healthy'' (json_reply 200 example_payload)),
      RequestDownload (Rejected (ErrorObj ''Failed to fetch''))]"

text \<open>The reply to a download request for an output that is gone.\<close>

definition not_found_reply :: "string response promise" where
  "not_found_reply = Resolved \<lparr>status_code = 404, body = Resolved ''Not Found''\<rparr>"

section \<open>Properties\<close>

subsection \<open>Auxiliary facts\<close>

lemmas handler_defs =
  perform_def handleFileSelect_def handleUpload_def handleDownload_def handleReset_def
  handleDrag_def handleDrop_def upload_try_def upload_outcome_def testBackendConnection_def

lemmas example_defs =
  xlsx_file_def csv_file_def health_reply_with_def example_payload_def empty_payload_def
  env_with_def json_reply_def empty_body_reply_def armed_def succeeded_def initial_state_def
  endsWith_def ok_def qualify_def errorMessage_def or_else_def new_Error_def status_message_def
  API_BASE_URL_def
  connect_message_def health_url_def upload_url_def

lemma armed_eq: "armed = initial_state\<lparr>selectedFile := Some xlsx_file\<rparr>"
  by (simp add: handler_defs example_defs)

lemma probe_request [simp]: "fst (testBackendConnection h) = [FetchGet health_url]"
  by (simp add: testBackendConnection_def)

lemma healthy_example: "snd (testBackendConnection (health_reply (env_with ''healthy'' reply)))"
  by (simp add: env_with_def health_reply_with_def testBackendConnection_def)

lemma degraded_example:
  "\<not> snd (testBackendConnection (health_reply (env_with ''degraded'' reply)))"
  by (simp add: env_with_def health_reply_with_def testBackendConnection_def)

text \<open>The three shapes of the effects of \<open>handleUpload\<close>.\<close>

lemma handleUpload_no_file:
  "selectedFile s = None \<Longrightarrow>
   handleUpload env s = [SetError (Some ''Please select a file first'')]"
  by (simp add: handleUpload_def)

lemma handleUpload_unhealthy:
  "selectedFile s = Some f \<Longrightarrow> \<not> snd (testBackendConnection (health_reply env)) \<Longrightarrow>
   handleUpload env s = [FetchGet health_url, SetError (Some connect_message)]"
  by (simp add: handleUpload_def case_prod_beta)

lemma handleUpload_attempt:
  "selectedFile s = Some f \<Longrightarrow> snd (testBackendConnection (health_reply env)) \<Longrightarrow>
   handleUpload env s =
     [FetchGet health_url, SetUploading True, SetError None, FetchPost upload_url f,
      upload_outcome env, SetUploading False]"
  by (simp add: handleUpload_def case_prod_beta)

lemma upload_outcome_cases:
  "(\<exists>p. upload_outcome env = SetResult (Some p)) \<or> (\<exists>m. upload_outcome env = SetError (Some m))"
  by (simp add: upload_outcome_def split: sum.splits thrown.splits)

lemma upload_outcome_keeps_uploading [simp]:
  "uploading (setState (upload_outcome env) s) = uploading s"
  using upload_outcome_cases [of env] by auto

lemma upload_outcome_calls [simp]:
  "uploading_calls (upload_outcome env # es) = uploading_calls es"
  using upload_outcome_cases [of env] by auto

lemma upload_outcome_not_post [simp]: "upload_outcome env \<noteq> FetchPost u f"
  using upload_outcome_cases [of env] by auto

lemma succeeded_eq:
  "succeeded =
     armed\<lparr>result := Some (example_payload\<lparr>download_url := Some (API_BASE_URL @ ''/files/out.csv'')\<rparr>)\<rparr>"
  by (simp add: handler_defs example_defs)

lemma mid_upload_eq: "mid_upload = armed\<lparr>uploading := True\<rparr>"
  by (simp add: mid_upload_def armed_eq handler_defs example_defs)

text \<open>Between two operations the busy flag is down.\<close>

lemma perform_not_uploading: "\<not> uploading s \<Longrightarrow> \<not> uploading (perform op s)"
proof (cases op)
  case (RequestUpload env)
  assume "\<not> uploading s"
  with RequestUpload show ?thesis
    by (cases "selectedFile s"; cases "snd (testBackendConnection (health_reply env))")
       (simp_all add: perform_def handleUpload_no_file handleUpload_unhealthy
          handleUpload_attempt)
next
  case (RequestDownload reply)
  assume "\<not> uploading s"
  then show ?thesis using RequestDownload
    by (auto simp: perform_def handleDownload_def split: option.splits promise.splits)
qed (auto simp: perform_def handleFileSelect_def handleReset_def handleDrag_def handleDrop_def
      handleFileInputChange_def split: option.splits)

lemma run_not_uploading: "\<not> uploading s \<Longrightarrow> \<not> uploading (run ops s)"
  by (induction ops arbitrary: s) (simp_all add: perform_not_uploading)

subsection \<open>Selecting a file\<close>

text \<open>
  Claim C1, as the code has it. A candidate whose name does not end in \<^verbatim>\<open>.xlsx\<close> only
  sets the error to the fixed validation message: the selected file, the result and the
  busy flag stay as they were. The phase is \<open>Failed\<close> when no result is shown and no upload
  is running.
\<close>

theorem selectFile_rejects_other:
  assumes "\<not> endsWith (file_name c) ''.xlsx''"
  shows "perform (SelectFile c) s = s\<lparr>error := Some ''Please select a valid .xlsx file''\<rparr>
       \<and> error (perform (SelectFile c) s) = Some ''Please select a valid .xlsx file''
       \<and> selectedFile (perform (SelectFile c) s) = selectedFile s
       \<and> result (perform (SelectFile c) s) = result s
       \<and> (result s = None \<and> \<not> uploading s \<longrightarrow> phase (perform (SelectFile c) s) = Failed)"
  using assms by (simp add: perform_def handleFileSelect_def phase_def)

theorem selectFile_rejects_other_witness:
  "\<not> endsWith (file_name csv_file) ''.xlsx''
   \<and> error (perform (SelectFile csv_file) armed) = Some ''Please select a valid .xlsx file''
   \<and> selectedFile (perform (SelectFile csv_file) armed) = Some xlsx_file
   \<and> phase (perform (SelectFile csv_file) armed) = Failed"
proof -
  have h: "\<not> endsWith (file_name csv_file) ''.xlsx''"
    by (simp add: csv_file_def endsWith_def)
  have u: "result armed = None" "\<not> uploading armed" "selectedFile armed = Some xlsx_file"
    by (simp_all add: armed_eq initial_state_def)
  from selectFile_rejects_other [OF h, of armed] h u show ?thesis by metis
qed

text \<open>
  Claim C1 as stated fails: after \<^verbatim>\<open>trades.xlsx\<close> was selected, selecting
  \<^verbatim>\<open>trades.csv\<close> leaves \<^verbatim>\<open>trades.xlsx\<close> selected.
\<close>

theorem selectFile_rejected_keeps_file_counterexample:
  "\<not> endsWith (file_name csv_file) ''.xlsx''
   \<and> selectedFile armed = Some xlsx_file
   \<and> selectedFile (perform (SelectFile csv_file) armed) = Some xlsx_file
   \<and> selectedFile (perform (SelectFile csv_file) armed) \<noteq> None"
  by (simp add: armed_eq perform_def handleFileSelect_def csv_file_def endsWith_def
        initial_state_def)

text \<open>
  Claim C9. A candidate whose name ends in \<^verbatim>\<open>.xlsx\<close> becomes the selected file, and the
  result and the error are cleared; nothing else changes. The phase is no longer
  \<open>Succeeded\<close>, so the component shows its upload controls again, and it is \<open>Idle\<close> when no
  upload is running.
\<close>

theorem selectFile_accepts_xlsx:
  assumes "endsWith (file_name c) ''.xlsx''"
  shows "perform (SelectFile c) s = s\<lparr>selectedFile := Some c, error := None, result := None\<rparr>
       \<and> selectedFile (perform (SelectFile c) s) = Some c
       \<and> result (perform (SelectFile c) s) = None
       \<and> error (perform (SelectFile c) s) = None
       \<and> phase (perform (SelectFile c) s) \<noteq> Succeeded
       \<and> (\<not> uploading s \<longrightarrow> phase (perform (SelectFile c) s) = Idle)"
  using assms by (simp add: perform_def handleFileSelect_def phase_def)

theorem selectFile_accepts_xlsx_witness:
  "endsWith (file_name xlsx_file) ''.xlsx''
   \<and> result succeeded \<noteq> None
   \<and> selectedFile (perform (SelectFile xlsx_file) succeeded) = Some xlsx_file
   \<and> result (perform (SelectFile xlsx_file) succeeded) = None
   \<and> error (perform (SelectFile xlsx_file) succeeded) = None
   \<and> phase (perform (SelectFile xlsx_file) succeeded) = Idle"
proof -
  have h: "endsWith (file_name xlsx_file) ''.xlsx''"
    by (simp add: xlsx_file_def endsWith_def)
  have u: "\<not> uploading succeeded" "result succeeded \<noteq> None"
    by (simp_all add: succeeded_eq armed_eq initial_state_def)
  from selectFile_accepts_xlsx [OF h, of succeeded] h u show ?thesis by blast
qed

subsection \<open>The session between operations\<close>

text \<open>
  Claim C2, as the code has it. In every state of the session, hence in every state reached
  by the operations, whole or overlapping at their \<^verbatim>\<open>await\<close> points: a result is set if
  and only if the phase is \<open>Succeeded\<close>, and in the phase \<open>Failed\<close> an error is set and no
  result is. The result and the error do not exclude each other. A reset and an accepted
  selection clear both; the probe alone changes nothing; after an upload at least one of the
  two is set; a download never changes the result; and a rejected selection and a download
  whose request fails set the error and keep the result, so that with a result shown both are
  set.
\<close>

theorem result_and_error_population:
  "(result s \<noteq> None \<longleftrightarrow> phase s = Succeeded)
   \<and> (phase s = Failed \<longrightarrow> error s \<noteq> None \<and> result s = None)
   \<and> result (perform Reset s) = None \<and> error (perform Reset s) = None
   \<and> (endsWith (file_name c) ''.xlsx'' \<longrightarrow>
        result (perform (SelectFile c) s) = None \<and> error (perform (SelectFile c) s) = None)
   \<and> (\<not> endsWith (file_name c) ''.xlsx'' \<longrightarrow>
        result (perform (SelectFile c) s) = result s
        \<and> error (perform (SelectFile c) s) = Some ''Please select a valid .xlsx file'')
   \<and> perform (ProbeHealth h) s = s
   \<and> (result (perform (RequestUpload env) s) \<noteq> None
        \<or> error (perform (RequestUpload env) s) \<noteq> None)
   \<and> result (perform (RequestDownload reply) s) = result s
   \<and> (\<forall>r u. result s = Some r \<and> download_url r = Some u \<and> u \<noteq> [] \<and> fetch_failed reply \<longrightarrow>
        result (perform (RequestDownload reply) s) = Some r
        \<and> error (perform (RequestDownload reply) s) = Some ''Failed to download file'')"
proof -
  have ph: "(result s \<noteq> None \<longleftrightarrow> phase s = Succeeded)
      \<and> (phase s = Failed \<longrightarrow> error s \<noteq> None \<and> result s = None)"
    by (auto simp: phase_def split: if_splits)
  have rs: "result (perform Reset s) = None \<and> error (perform Reset s) = None"
    by (simp add: perform_def handleReset_def)
  have se: "(endsWith (file_name c) ''.xlsx'' \<longrightarrow>
        result (perform (SelectFile c) s) = None \<and> error (perform (SelectFile c) s) = None)
      \<and> (\<not> endsWith (file_name c) ''.xlsx'' \<longrightarrow>
        result (perform (SelectFile c) s) = result s
        \<and> error (perform (SelectFile c) s) = Some ''Please select a valid .xlsx file'')"
    by (simp add: perform_def handleFileSelect_def)
  have pr: "perform (ProbeHealth h) s = s"
    by (simp add: perform_def)
  have up: "result (perform (RequestUpload env) s) \<noteq> None
        \<or> error (perform (RequestUpload env) s) \<noteq> None"
  proof (cases "selectedFile s")
    case None
    then show ?thesis by (simp add: perform_def handleUpload_no_file)
  next
    case (Some f)
    show ?thesis
    proof (cases "snd (testBackendConnection (health_reply env))")
      case True
      from upload_outcome_cases [of env] show ?thesis
        by (auto simp: perform_def handleUpload_attempt [OF Some True])
    next
      case False
      then show ?thesis by (simp add: perform_def handleUpload_unhealthy [OF Some])
    qed
  qed
  have dl: "result (perform (RequestDownload reply) s) = result s"
    by (auto simp: perform_def handleDownload_def split: option.splits promise.splits)
  have df: "\<forall>r u. result s = Some r \<and> download_url r = Some u \<and> u \<noteq> [] \<and> fetch_failed reply \<longrightarrow>
        result (perform (RequestDownload reply) s) = Some r
        \<and> error (perform (RequestDownload reply) s) = Some ''Failed to download file''"
    by (cases reply) (auto simp: perform_def handleDownload_def)
  from ph rs se pr up dl df show ?thesis by blast
qed

theorem result_and_error_population_witness:
  "phase (perform (SelectFile csv_file) armed) = Failed
   \<and> error (perform (SelectFile csv_file) armed) \<noteq> None
   \<and> result (perform (SelectFile csv_file) armed) = None
   \<and> endsWith (file_name xlsx_file) ''.xlsx''
   \<and> result (perform (SelectFile xlsx_file) succeeded) = None
   \<and> error (perform (SelectFile xlsx_file) succeeded) = None
   \<and> \<not> endsWith (file_name csv_file) ''.xlsx''
   \<and> result (perform (SelectFile csv_file) succeeded) = result succeeded
   \<and> error (perform (SelectFile csv_file) succeeded) = Some ''Please select a valid .xlsx file''
   \<and> result succeeded \<noteq> None \<and> phase succeeded = Succeeded
   \<and> fetch_failed not_found_reply
   \<and> result (perform (RequestDownload not_found_reply) succeeded) = result succeeded
   \<and> error (perform (RequestDownload not_found_reply) succeeded)
       = Some ''Failed to download file''"
proof -
  have f: "phase (perform (SelectFile csv_file) armed) = Failed"
    by (simp add: armed_eq initial_state_def perform_def handleFileSelect_def csv_file_def
          endsWith_def phase_def)
  have x: "endsWith (file_name xlsx_file) ''.xlsx''"
    and c: "\<not> endsWith (file_name csv_file) ''.xlsx''"
    by (simp_all add: xlsx_file_def csv_file_def endsWith_def)
  have r: "result succeeded
             = Some (example_payload\<lparr>download_url := Some (API_BASE_URL @ ''/files/out.csv'')\<rparr>)"
    by (simp add: succeeded_eq)
  have d: "download_url (example_payload\<lparr>download_url := Some (API_BASE_URL @ ''/files/out.csv'')\<rparr>)
             = Some (API_BASE_URL @ ''/files/out.csv'')"
    and n: "API_BASE_URL @ ''/files/out.csv'' \<noteq> []"
    by simp_all
  have k: "fetch_failed not_found_reply"
    by (simp add: not_found_reply_def ok_def)
  from result_and_error_population
         [of "perform (SelectFile csv_file) armed" xlsx_file "health_reply_with ''healthy''"
             "env_with ''healthy'' (json_reply 200 example_payload)" not_found_reply]
       result_and_error_population
         [of succeeded xlsx_file "health_reply_with ''healthy''"
             "env_with ''healthy'' (json_reply 200 example_payload)" not_found_reply]
       result_and_error_population
         [of succeeded csv_file "health_reply_with ''healthy''"
             "env_with ''healthy'' (json_reply 200 example_payload)" not_found_reply]
       f x c r d n k
  show ?thesis by (metis option.distinct(1))
qed

text \<open>
  Claim C2 as stated fails: after a file is selected and processed and the download then
  fails, the result and the error are both set, and the phase is \<open>Succeeded\<close> with an error.
\<close>

theorem result_and_error_both_set_counterexample:
  "result (run failed_download_run initial_state) \<noteq> None
   \<and> error (run failed_download_run initial_state) = Some ''Failed to download file''
   \<and> phase (run failed_download_run initial_state) = Succeeded
   \<and> \<not> (error (run failed_download_run initial_state) \<noteq> None
          \<longleftrightarrow> phase (run failed_download_run initial_state) = Failed)"
proof -
  have "run failed_download_run initial_state
          = perform (RequestDownload (Rejected (ErrorObj ''Failed to fetch''))) succeeded"
    by (simp add: failed_download_run_def succeeded_def armed_def)
  also have "\<dots> = succeeded\<lparr>error := Some ''Failed to download file''\<rparr>"
    by (simp add: succeeded_eq perform_def handleDownload_def API_BASE_URL_def)
  finally show ?thesis
    by (simp add: succeeded_eq phase_def)
qed

subsection \<open>Uploading\<close>




text \<open>
  Claim C4. Started with the busy flag down, \<open>handleUpload\<close> raises the flag once and lowers
  it once on every run that passes the two guards, whatever the upload's reply is (a result,
  a failure reply or an exception); on a run that a guard stops it never touches the flag.
  The flag is up only in states strictly inside the run, it is down at the end, and it is
  down in every state between operations.
\<close>

theorem busy_only_during_upload:
  assumes "\<not> uploading s"
  shows "uploading_calls (handleUpload env s) =
           (if selectedFile s \<noteq> None \<and> snd (testBackendConnection (health_reply env))
            then [True, False] else [])
       \<and> map uploading (states_along (handleUpload env s) s) =
           (if selectedFile s \<noteq> None \<and> snd (testBackendConnection (health_reply env))
            then [False, False, True, True, True, True, False]
            else replicate (Suc (length (handleUpload env s))) False)
       \<and> \<not> uploading (perform (RequestUpload env) s)
       \<and> \<not> uploading (run ops initial_state)"
proof -
  have rest: "\<not> uploading (run ops initial_state)"
    by (rule run_not_uploading) (simp add: initial_state_def)
  show ?thesis
  proof (cases "selectedFile s")
    case None
    with assms rest show ?thesis
      by (simp add: handleUpload_no_file perform_def)
  next
    case (Some f)
    show ?thesis
    proof (cases "snd (testBackendConnection (health_reply env))")
      case True
      with Some assms rest show ?thesis
        by (simp add: handleUpload_attempt perform_def)
    next
      case False
      with Some assms rest show ?thesis
        by (simp add: handleUpload_unhealthy perform_def)
    qed
  qed
qed

theorem busy_only_during_upload_witness:
  "\<not> uploading armed
   \<and> uploading_calls (handleUpload (env_with ''healthy'' (json_reply 200 example_payload)) armed)
       = [True, False]
   \<and> uploading_calls (handleUpload (env_with ''healthy'' (json_reply 400 empty_payload)) armed)
       = [True, False]
   \<and> uploading_calls (handleUpload (env_with ''healthy'' (Rejected OtherValue)) armed)
       = [True, False]
   \<and> map uploading
        (states_along (handleUpload (env_with ''healthy'' (Rejected OtherValue)) armed) armed)
       = [False, False, True, True, True, True, False]
   \<and> uploading_calls (handleUpload (env_with ''degraded'' (Rejected OtherValue)) armed) = []"
proof -
  have a: "\<not> uploading armed" "selectedFile armed \<noteq> None"
    by (simp_all add: armed_eq initial_state_def)
  from busy_only_during_upload [OF a(1), of "env_with ''healthy'' (json_reply 200 example_payload)"]
       busy_only_during_upload [OF a(1), of "env_with ''healthy'' (json_reply 400 empty_payload)"]
       busy_only_during_upload [OF a(1), of "env_with ''healthy'' (Rejected OtherValue)"]
       busy_only_during_upload [OF a(1), of "env_with ''degraded'' (Rejected OtherValue)"]
       a healthy_example degraded_example
  show ?thesis by simp
qed

text \<open>
  Claim C7. The probe passes only on a reply whose body parses to an object with
  \<^verbatim>\<open>status\<close> equal to \<^verbatim>\<open>healthy\<close>. With a file selected and any other outcome of the
  probe, \<open>handleUpload\<close> sends the probe, sets the error to the connection message
  (\<^verbatim>\<open>Cannot connect to backend server.\<close> and the hint naming the base URL) and does
  nothing else: no upload request is sent, and the phase is \<open>Failed\<close> when no result was
  shown and no upload was running. Whenever an upload request is sent, the probe was sent
  first and passed.
\<close>

theorem unhealthy_probe_blocks_upload:
  "(snd (testBackendConnection h) \<longleftrightarrow>
      (\<exists>r d. h = Resolved r \<and> body r = Resolved (JObject d) \<and> status d = Some ''healthy''))
   \<and> (selectedFile s \<noteq> None \<and> \<not> snd (testBackendConnection (health_reply env)) \<longrightarrow>
        handleUpload env s = [FetchGet health_url, SetError (Some connect_message)]
        \<and> error (perform (RequestUpload env) s) = Some connect_message
        \<and> error (perform (RequestUpload env) s)
            = Some ''Cannot connect to backend server. Make sure Flask is running on https://project2backenddeploy-production.up.railway.app''
        \<and> (\<forall>u f. FetchPost u f \<notin> set (handleUpload env s))
        \<and> (result s = None \<and> \<not> uploading s \<longrightarrow> phase (perform (RequestUpload env) s) = Failed))
   \<and> (FetchPost u f \<in> set (handleUpload env s) \<longrightarrow>
        snd (testBackendConnection (health_reply env))
        \<and> (\<exists>rest. handleUpload env s = FetchGet health_url # rest))"
proof (intro conjI)
  show "snd (testBackendConnection h) \<longleftrightarrow>
      (\<exists>r d. h = Resolved r \<and> body r = Resolved (JObject d) \<and> status d = Some ''healthy'')"
    by (auto simp: testBackendConnection_def split: promise.splits json_value.splits)
next
  show "selectedFile s \<noteq> None \<and> \<not> snd (testBackendConnection (health_reply env)) \<longrightarrow>
        handleUpload env s = [FetchGet health_url, SetError (Some connect_message)]
        \<and> error (perform (RequestUpload env) s) = Some connect_message
        \<and> error (perform (RequestUpload env) s)
            = Some ''Cannot connect to backend server. Make sure Flask is running on https://project2backenddeploy-production.up.railway.app''
        \<and> (\<forall>u f. FetchPost u f \<notin> set (handleUpload env s))
        \<and> (result s = None \<and> \<not> uploading s \<longrightarrow> phase (perform (RequestUpload env) s) = Failed)"
    by (cases "selectedFile s")
       (auto simp: handleUpload_unhealthy perform_def phase_def connect_message_def
          API_BASE_URL_def)
next
  show "FetchPost u f \<in> set (handleUpload env s) \<longrightarrow>
        snd (testBackendConnection (health_reply env))
        \<and> (\<exists>rest. handleUpload env s = FetchGet health_url # rest)"
    by (cases "selectedFile s"; cases "snd (testBackendConnection (health_reply env))")
       (auto simp: handleUpload_no_file handleUpload_unhealthy handleUpload_attempt)
qed

theorem unhealthy_probe_blocks_upload_witness:
  "selectedFile armed \<noteq> None \<and> result armed = None \<and> \<not> uploading armed
   \<and> \<not> snd (testBackendConnection
              (health_reply (env_with ''degraded'' (json_reply 200 example_payload))))
   \<and> handleUpload (env_with ''degraded'' (json_reply 200 example_payload)) armed
       = [FetchGet health_url, SetError (Some connect_message)]
   \<and> error (perform (RequestUpload (env_with ''degraded'' (json_reply 200 example_payload))) armed)
       = Some ''Cannot connect to backend server. Make sure Flask is running on https://project2backenddeploy-production.up.railway.app''
   \<and> phase (perform (RequestUpload (env_with ''degraded'' (json_reply 200 example_payload))) armed)
       = Failed
   \<and> FetchPost upload_url xlsx_file
       \<in> set (handleUpload (env_with ''healthy'' (json_reply 200 example_payload)) armed)
   \<and> snd (testBackendConnection
            (health_reply (env_with ''healthy'' (json_reply 200 example_payload))))"
proof -
  have a: "selectedFile armed \<noteq> None" "result armed = None" "\<not> uploading armed"
    "selectedFile armed = Some xlsx_file"
    by (simp_all add: armed_eq initial_state_def)
  have p: "FetchPost upload_url xlsx_file
       \<in> set (handleUpload (env_with ''healthy'' (json_reply 200 example_payload)) armed)"
    by (simp add: handleUpload_attempt [OF a(4) healthy_example])
  from unhealthy_probe_blocks_upload
         [of "health_reply_with ''degraded''" armed
             "env_with ''degraded'' (json_reply 200 example_payload)" upload_url xlsx_file]
       unhealthy_probe_blocks_upload
         [of "health_reply_with ''healthy''" armed
             "env_with ''healthy'' (json_reply 200 example_payload)" upload_url xlsx_file]
       a p degraded_example [of "json_reply 200 example_payload"]
  show ?thesis by blast
qed

text \<open>
  Claim C8. With a file selected and a healthy probe, a reply that is \<^verbatim>\<open>ok\<close> and whose
  body is an object with a non-empty download URL is stored as the result with the URL
  prefixed by the base URL and every other member, the statistics among them, as received;
  the phase is \<open>Succeeded\<close>, no error is set and the busy flag is down.
\<close>

theorem upload_success_stores_result:
  assumes "selectedFile s = Some f"
    and "snd (testBackendConnection (health_reply env))"
    and "upload_reply env = Resolved r" and "ok r" and "body r = Resolved (JObject data)"
    and "download_url data = Some u" and "u \<noteq> []"
  shows "result (perform (RequestUpload env) s)
           = Some (data\<lparr>download_url := Some (API_BASE_URL @ u)\<rparr>)
       \<and> map_option stats (result (perform (RequestUpload env) s)) = Some (stats data)
       \<and> map_option download_url (result (perform (RequestUpload env) s))
           = Some (Some (API_BASE_URL @ u))
       \<and> phase (perform (RequestUpload env) s) = Succeeded
       \<and> error (perform (RequestUpload env) s) = None
       \<and> \<not> uploading (perform (RequestUpload env) s)"
proof -
  have "upload_outcome env = SetResult (Some (data\<lparr>download_url := Some (API_BASE_URL @ u)\<rparr>))"
    using assms(3-7) by (simp add: upload_outcome_def upload_try_def qualify_def)
  then show ?thesis
    by (simp add: perform_def handleUpload_attempt [OF assms(1,2)] phase_def)
qed

theorem upload_success_stores_result_witness:
  "selectedFile armed = Some xlsx_file
   \<and> ok \<lparr>status_code = 200, body = Resolved (JObject example_payload)\<rparr>
   \<and> download_url example_payload = Some ''/files/out.csv''
   \<and> phase (perform (RequestUpload (env_with ''healthy'' (json_reply 200 example_payload))) armed)
       = Succeeded
   \<and> map_option download_url
       (result (perform (RequestUpload (env_with ''healthy'' (json_reply 200 example_payload))) armed))
       = Some (Some (API_BASE_URL @ ''/files/out.csv''))
   \<and> map_option stats
       (result (perform (RequestUpload (env_with ''healthy'' (json_reply 200 example_payload))) armed))
       = Some (stats example_payload)
   \<and> map_option total_records (stats example_payload) = Some 5"
proof -
  have a: "selectedFile armed = Some xlsx_file"
    by (simp add: armed_eq initial_state_def)
  have r: "upload_reply (env_with ''healthy'' (json_reply 200 example_payload))
             = Resolved \<lparr>status_code = 200, body = Resolved (JObject example_payload)\<rparr>"
    by (simp add: env_with_def json_reply_def)
  have k: "ok \<lparr>status_code = 200, body = Resolved (JObject example_payload)\<rparr>"
    by (simp add: ok_def)
  have b: "body \<lparr>status_code = 200, body = Resolved (JObject example_payload)\<rparr>
             = Resolved (JObject example_payload)"
    by simp
  have d: "download_url example_payload = Some ''/files/out.csv''"
    and n: "''/files/out.csv'' \<noteq> []"
    and t: "map_option total_records (stats example_payload) = Some 5"
    by (simp_all add: example_payload_def)
  from upload_success_stores_result [OF a healthy_example r k b d n] a k d t
  show ?thesis by blast
qed

subsection \<open>Resetting\<close>

text \<open>
  Claim C5, as the code has it. \<open>handleReset\<close> clears the selected file, the result and the
  error and leaves the busy flag as it is: from a state that is not uploading the phase
  becomes \<open>Idle\<close>, from an uploading one it is \<open>Uploading\<close>.
\<close>

theorem reset_clears_session:
  "perform Reset s = s\<lparr>selectedFile := None, result := None, error := None\<rparr>
   \<and> selectedFile (perform Reset s) = None
   \<and> result (perform Reset s) = None
   \<and> error (perform Reset s) = None
   \<and> uploading (perform Reset s) = uploading s
   \<and> (\<not> uploading s \<longrightarrow> phase (perform Reset s) = Idle)
   \<and> (uploading s \<longrightarrow> phase (perform Reset s) = Uploading)"
  by (simp add: perform_def handleReset_def phase_def)

theorem reset_clears_session_witness:
  "\<not> uploading succeeded \<and> phase succeeded = Succeeded
   \<and> phase (perform Reset succeeded) = Idle
   \<and> perform Reset succeeded = initial_state
   \<and> uploading mid_upload \<and> phase (perform Reset mid_upload) = Uploading"
proof -
  have u: "\<not> uploading succeeded" "phase succeeded = Succeeded"
    by (simp_all add: succeeded_eq armed_eq initial_state_def phase_def)
  have m: "uploading mid_upload"
    by (simp add: mid_upload_eq)
  have e: "succeeded\<lparr>selectedFile := None, result := None, error := None\<rparr> = initial_state"
    by (simp add: succeeded_eq armed_eq initial_state_def)
  from reset_clears_session [of succeeded] reset_clears_session [of mid_upload] u m e
  show ?thesis by metis
qed

text \<open>
  Claim C5 as stated fails in the phase \<open>Uploading\<close>: a reset in a state the component
  passes through while an upload is in flight leaves the busy flag up, and the phase is not
  \<open>Idle\<close>.
\<close>

theorem reset_while_uploading_counterexample:
  "phase mid_upload = Uploading \<and> phase (perform Reset mid_upload) = Uploading
   \<and> phase (perform Reset mid_upload) \<noteq> Idle"
  by (simp add: mid_upload_eq armed_eq initial_state_def perform_def handleReset_def phase_def)

subsection \<open>Downloading\<close>

text \<open>
  Claim C6. In the phase \<open>Succeeded\<close> with a download URL, a download whose request fails
  (the \<^verbatim>\<open>fetch\<close> rejects or the reply is not \<^verbatim>\<open>ok\<close>) keeps the phase and the result and
  sets the error to the download message; nothing else changes.
\<close>

theorem download_failure_keeps_result:
  assumes "phase s = Succeeded" and "result s = Some r" and "download_url r = Some u"
    and "u \<noteq> []" and "fetch_failed reply"
  shows "phase (perform (RequestDownload reply) s) = Succeeded
       \<and> result (perform (RequestDownload reply) s) = result s
       \<and> error (perform (RequestDownload reply) s) = Some ''Failed to download file''
       \<and> perform (RequestDownload reply) s = s\<lparr>error := Some ''Failed to download file''\<rparr>
       \<and> handleDownload reply s = [FetchGet u, SetError (Some ''Failed to download file'')]"
  using assms by (cases reply; simp add: perform_def handleDownload_def phase_def)

theorem download_failure_keeps_result_witness:
  "phase succeeded = Succeeded
   \<and> fetch_failed not_found_reply
   \<and> phase (perform (RequestDownload not_found_reply) succeeded) = Succeeded
   \<and> result (perform (RequestDownload not_found_reply) succeeded) = result succeeded
   \<and> error (perform (RequestDownload not_found_reply) succeeded)
       = Some ''Failed to download file''"
proof -
  have p: "phase succeeded = Succeeded"
    by (simp add: succeeded_eq phase_def)
  have r: "result succeeded
             = Some (example_payload\<lparr>download_url := Some (API_BASE_URL @ ''/files/out.csv'')\<rparr>)"
    by (simp add: succeeded_eq)
  have d: "download_url (example_payload\<lparr>download_url := Some (API_BASE_URL @ ''/files/out.csv'')\<rparr>)
             = Some (API_BASE_URL @ ''/files/out.csv'')"
    by simp
  have n: "API_BASE_URL @ ''/files/out.csv'' \<noteq> []" by simp
  have f: "fetch_failed not_found_reply"
    by (simp add: not_found_reply_def ok_def)
  from download_failure_keeps_result [OF p r d n f] p f show ?thesis by blast
qed

text \<open>
  Claim C10. Without a result, or with a result whose download URL is missing or empty,
  \<open>handleDownload\<close> performs no effect at all: no request is sent and the state is the same.
\<close>

theorem download_without_locator:
  assumes "\<forall>r. result s = Some r \<longrightarrow> \<not> truthy (download_url r)"
  shows "handleDownload reply s = [] \<and> perform (RequestDownload reply) s = s"
  using assms
  by (cases "result s") (auto simp: perform_def handleDownload_def split: option.splits)

theorem download_without_locator_witness:
  "result armed = None
   \<and> handleDownload not_found_reply armed = []
   \<and> perform (RequestDownload not_found_reply) armed = armed
   \<and> result (armed\<lparr>result := Some empty_payload\<rparr>) = Some empty_payload
   \<and> \<not> truthy (download_url empty_payload)
   \<and> perform (RequestDownload not_found_reply) (armed\<lparr>result := Some empty_payload\<rparr>)
       = armed\<lparr>result := Some empty_payload\<rparr>"
proof -
  have a: "\<forall>r. result armed = Some r \<longrightarrow> \<not> truthy (download_url r)"
    by (simp add: armed_eq initial_state_def)
  have b: "\<forall>r. result (armed\<lparr>result := Some empty_payload\<rparr>) = Some r
               \<longrightarrow> \<not> truthy (download_url r)"
    by (simp add: empty_payload_def)
  from download_without_locator [OF a, of not_found_reply]
       download_without_locator [OF b, of not_found_reply]
  show ?thesis by (simp add: armed_eq initial_state_def empty_payload_def)
qed

end
